theory Spec2Isabelle
  imports
    Complex_Main
    "HOL-Library.Char_ord"
    "HOL-Library.List_Lexorder"
    "HOL-Library.Sublist"
    "HOL-Library.AList"
begin

section \<open>Values, exceptions and paths\<close>

text \<open>
  The configuration loader of medit (\<^verbatim>\<open>src/microedit/config.py\<close> and
  \<^verbatim>\<open>src/microedit/config_validators.py\<close>) works on the dynamically typed values that
  \<^verbatim>\<open>json.load\<close> returns.  A Python value is a \<open>pyval\<close>.  A \<^verbatim>\<open>str\<close> is a \<open>string\<close>
  holding its UTF-8 bytes, a \<^verbatim>\<open>dict\<close> with string keys is an association list in
  insertion order.  A finite \<^verbatim>\<open>float\<close> is the real number it denotes: rounding to
  binary64 and overflow are not part of the model.
\<close>

datatype pyfloat = Finite real | NaN | PosInf | NegInf

datatype pyval =
    PNone
  | PBool bool
  | PInt int
  | PFloat pyfloat
  | PStr string
  | PList "pyval list"
  | PTuple "pyval list"
  | PDict "(string \<times> pyval) list"

type_synonym path = string

text \<open>
  The exceptions of the program.  \<^verbatim>\<open>ConfigError\<close> carries its message and its
  \<^verbatim>\<open>path\<close> attribute.  \<^verbatim>\<open>json.JSONDecodeError\<close> is a subclass of \<^verbatim>\<open>ValueError\<close>
  and not of \<^verbatim>\<open>ConfigError\<close>; \<open>is_ValueError\<close> and \<open>exn_str\<close> give the class test
  and \<^verbatim>\<open>str(exc)\<close>.
\<close>

datatype exn =
    ConfigError string "path option"
  | ValueError string
  | JSONDecodeError string
  | OSError string
  | OtherException string

fun is_ValueError :: "exn \<Rightarrow> bool" where
  "is_ValueError (ValueError m) = True"
| "is_ValueError (JSONDecodeError m) = True"
| "is_ValueError e = False"

fun is_ConfigError :: "exn \<Rightarrow> bool" where
  "is_ConfigError (ConfigError m p) = True"
| "is_ConfigError e = False"

fun exn_str :: "exn \<Rightarrow> string" where
  "exn_str (ConfigError m p) = m"
| "exn_str (ValueError m) = m"
| "exn_str (JSONDecodeError m) = m"
| "exn_str (OSError m) = m"
| "exn_str (OtherException m) = m"

subsection \<open>Type tests\<close>

text \<open>
  \<^verbatim>\<open>isinstance(value, int)\<close> holds for a \<^verbatim>\<open>bool\<close> as well, since \<^verbatim>\<open>bool\<close> is a
  subclass of \<^verbatim>\<open>int\<close>; the tests below keep that, so that the explicit
  \<^verbatim>\<open>not isinstance(value, bool)\<close> of the source stays visible in the model.
\<close>

fun isinstance_bool :: "pyval \<Rightarrow> bool" where
  "isinstance_bool (PBool b) = True"
| "isinstance_bool v = False"

fun isinstance_int :: "pyval \<Rightarrow> bool" where
  "isinstance_int (PInt n) = True"
| "isinstance_int (PBool b) = True"
| "isinstance_int v = False"

fun isinstance_float :: "pyval \<Rightarrow> bool" where
  "isinstance_float (PFloat x) = True"
| "isinstance_float v = False"

fun isinstance_str :: "pyval \<Rightarrow> bool" where
  "isinstance_str (PStr s) = True"
| "isinstance_str v = False"

fun isinstance_list :: "pyval \<Rightarrow> bool" where
  "isinstance_list (PList xs) = True"
| "isinstance_list v = False"

fun isinstance_tuple :: "pyval \<Rightarrow> bool" where
  "isinstance_tuple (PTuple xs) = True"
| "isinstance_tuple v = False"

fun isinstance_Mapping :: "pyval \<Rightarrow> bool" where
  "isinstance_Mapping (PDict d) = True"
| "isinstance_Mapping v = False"

text \<open>\<^verbatim>\<open>int(b)\<close> of a bool, and \<^verbatim>\<open>float(value)\<close> of an int, a bool or a float.\<close>

fun int_value :: "pyval \<Rightarrow> int" where
  "int_value (PInt n) = n"
| "int_value (PBool b) = (if b then 1 else 0)"
| "int_value v = 0"

fun py_float :: "pyval \<Rightarrow> pyval" where
  "py_float (PFloat x) = PFloat x"
| "py_float v = PFloat (Finite (of_int (int_value v)))"

subsection \<open>Strings\<close>

definition apostrophe :: string where
  "apostrophe = [CHR 0x27]"

definition dquote :: string where
  "dquote = [CHR 0x22]"

definition newline :: string where
  "newline = [CHR 0x0A]"

text \<open>\<^verbatim>\<open>sep.join(xs)\<close>.\<close>

fun join :: "string \<Rightarrow> string list \<Rightarrow> string" where
  "join sep [] = []"
| "join sep [x] = x"
| "join sep (x # y # ys) = x @ sep @ join sep (y # ys)"

text \<open>\<^verbatim>\<open>str(n)\<close> of an integer, in decimal.\<close>

definition digit_char :: "nat \<Rightarrow> char" where
  "digit_char d = char_of (48 + d)"

fun str_nat :: "nat \<Rightarrow> string" where
  "str_nat n = (if n < 10 then [digit_char n] else str_nat (n div 10) @ [digit_char (n mod 10)])"

definition str_int :: "int \<Rightarrow> string" where
  "str_int i = (if i < 0 then CHR ''-'' # str_nat (nat (- i)) else str_nat (nat i))"

text \<open>
  \<^verbatim>\<open>len(s)\<close> counts code points: the continuation bytes \<open>0x80..0xBF\<close> of a UTF-8
  sequence are not counted.
\<close>

definition py_len :: "string \<Rightarrow> int" where
  "py_len s = int (length (filter (\<lambda>c. \<not> (128 \<le> (of_char c :: nat) \<and> (of_char c :: nat) < 192)) s))"

text \<open>
  \<^verbatim>\<open>s.strip()\<close>, on the ASCII white space (\<open>0x09..0x0D\<close>, \<open>0x1C..0x1F\<close>, space);
  the white space of Unicode beyond ASCII is not modelled.
\<close>

definition py_isspace :: "char \<Rightarrow> bool" where
  "py_isspace c = (let n = (of_char c :: nat) in (9 \<le> n \<and> n \<le> 13) \<or> (28 \<le> n \<and> n \<le> 32))"

definition py_strip :: "string \<Rightarrow> string" where
  "py_strip s = rev (dropWhile py_isspace (rev (dropWhile py_isspace s)))"

text \<open>
  \<^verbatim>\<open>s.lower()\<close> on the ASCII letters.  No character outside ASCII lowers to an ASCII
  letter of \<^verbatim>\<open>.json\<close>, so a comparison of the result with \<^verbatim>\<open>".json"\<close> is the same.
\<close>

definition lower_char :: "char \<Rightarrow> char" where
  "lower_char c = (let n = (of_char c :: nat) in if 65 \<le> n \<and> n \<le> 90 then char_of (n + 32) else c)"

definition py_lower :: "string \<Rightarrow> string" where
  "py_lower s = map lower_char s"

section \<open>Field validators (config\_validators.py)\<close>

text \<open>
  A \<^verbatim>\<open>FieldValidator\<close> is called as
  \<^verbatim>\<open>validator(value, default, path=path, field_name=field_name)\<close> and returns the
  resolved value or raises.
\<close>

type_synonym FieldValidator = "pyval \<Rightarrow> pyval \<Rightarrow> path option \<Rightarrow> string \<Rightarrow> exn + pyval"

text \<open>\<^verbatim>\<open>label or field_name\<close>: an absent or empty label gives the field name.\<close>

definition display_of :: "string option \<Rightarrow> string \<Rightarrow> string" where
  "display_of label field_name =
     (case label of None \<Rightarrow> field_name | Some l \<Rightarrow> (if l = [] then field_name else l))"

text \<open>\<^verbatim>\<open>if value is None: value = default\<close>.\<close>

definition or_default :: "pyval \<Rightarrow> pyval \<Rightarrow> pyval" where
  "or_default v dflt = (if v = PNone then dflt else v)"

text \<open>
  \<^verbatim>\<open>bound is not None and x < bound\<close>, \<^verbatim>\<open>bound is not None and x > bound\<close>, and the
  bound as it is printed in a message.
\<close>

definition below_bound :: "int \<Rightarrow> int option \<Rightarrow> bool" where
  "below_bound x bound = (case bound of None \<Rightarrow> False | Some b \<Rightarrow> x < b)"

definition above_bound :: "int \<Rightarrow> int option \<Rightarrow> bool" where
  "above_bound x bound = (case bound of None \<Rightarrow> False | Some b \<Rightarrow> x > b)"

definition str_bound :: "int option \<Rightarrow> string" where
  "str_bound bound = (case bound of None \<Rightarrow> ''None'' | Some b \<Rightarrow> str_int b)"

definition validate_bool :: "string option \<Rightarrow> FieldValidator" where
  "validate_bool label v dflt p field_name =
     (let value = or_default v dflt; display = display_of label field_name in
      if \<not> isinstance_bool value then Inl (ValueError (display @ '' must be a boolean.''))
      else Inr value)"

definition validate_int :: "string option \<Rightarrow> int option \<Rightarrow> int option \<Rightarrow> FieldValidator" where
  "validate_int label min_value max_value v dflt p field_name =
     (let value = or_default v dflt; display = display_of label field_name in
      if \<not> isinstance_int value \<or> isinstance_bool value
        then Inl (ValueError (display @ '' must be an integer.''))
      else if below_bound (int_value value) min_value
        then Inl (ValueError (display @ '' must be >= '' @ str_bound min_value @ ''.''))
      else if above_bound (int_value value) max_value
        then Inl (ValueError (display @ '' must be <= '' @ str_bound max_value @ ''.''))
      else Inr value)"

fun str_value :: "pyval \<Rightarrow> string" where
  "str_value (PStr s) = s"
| "str_value v = []"

definition validate_string ::
  "string option \<Rightarrow> bool \<Rightarrow> bool \<Rightarrow> bool \<Rightarrow> int option \<Rightarrow> int option \<Rightarrow> FieldValidator" where
  "validate_string label allow_empty forbid_newlines strip min_length max_length v dflt p field_name =
     (let value0 = or_default v dflt; display = display_of label field_name in
      if \<not> isinstance_str value0 then Inl (ValueError (display @ '' must be a string.''))
      else
        let value = (if strip then py_strip (str_value value0) else str_value value0) in
        if \<not> allow_empty \<and> value = [] then Inl (ValueError (display @ '' must not be empty.''))
        else if below_bound (py_len value) min_length
          then Inl (ValueError (display @ '' must be at least '' @ str_bound min_length @ '' characters.''))
        else if above_bound (py_len value) max_length
          then Inl (ValueError (display @ '' must be at most '' @ str_bound max_length @ '' characters.''))
        else if forbid_newlines \<and> (CHR 0x0A \<in> set value \<or> CHR 0x0D \<in> set value)
          then Inl (ValueError (display @ '' must not contain newlines.''))
        else Inr (PStr value))"

text \<open>
  The other factories of the module (\<^verbatim>\<open>validate_number\<close>, \<^verbatim>\<open>validate_one_of\<close>,
  \<^verbatim>\<open>validate_list\<close>, \<^verbatim>\<open>validate_object\<close>) are used by no field of the schema; any of
  them is a \<open>FieldValidator\<close> for the general statements below.
\<close>

section \<open>The schema and validation (config.py)\<close>

text \<open>
  The source reads the schema by reflection: \<^verbatim>\<open>fields(MeditConfig)\<close> lists the sections,
  \<^verbatim>\<open>fields(type(default_section))\<close> the options of a section, and an option's
  \<^verbatim>\<open>metadata\<close> may hold a \<^verbatim>\<open>"validators"\<close> sequence or a single \<^verbatim>\<open>"validator"\<close>.
  Here a dataclass is the list of its fields in declaration order, and an instance of a
  dataclass is the list of its field values in the same order.
\<close>

record option_field =
  opt_name :: string
  opt_default :: pyval
  meta_validators :: "FieldValidator list option"
  meta_validator :: "FieldValidator option"

datatype section_default = Dataclass "option_field list" | NotDataclass pyval

record section_field =
  sec_name :: string
  sec_default :: section_default

type_synonym section_value = "(string \<times> pyval) list"
type_synonym config_value = "(string \<times> section_value) list"

text \<open>\<^verbatim>\<open>CommandsConfig\<close> and \<^verbatim>\<open>MeditConfig\<close>, and their all-default instances.\<close>

definition CommandsConfig_fields :: "option_field list" where
  "CommandsConfig_fields =
     [\<lparr>opt_name = ''separator'', opt_default = PStr '','',
       meta_validators = None,
       meta_validator = Some (validate_string (Some ''Command separator'') False True False None None)\<rparr>]"

definition MeditConfig_fields :: "section_field list" where
  "MeditConfig_fields = [\<lparr>sec_name = ''commands'', sec_default = Dataclass CommandsConfig_fields\<rparr>]"

definition CommandsConfig_init :: section_value where
  "CommandsConfig_init = [(''separator'', PStr '','')]"

definition MeditConfig_init :: config_value where
  "MeditConfig_init = [(''commands'', CommandsConfig_init)]"

record ConfigDiagnostics =
  diag_path :: "path option"
  warnings :: "string list"
  error :: "string option"

record ConfigResult =
  config :: config_value
  diagnostics :: ConfigDiagnostics

subsection \<open>Generic coercion against the default\<close>

text \<open>
  \<^verbatim>\<open>_validate_like_default\<close>.  The \<^verbatim>\<open>match\<close> statement tries \<^verbatim>\<open>bool()\<close> before
  \<^verbatim>\<open>int()\<close>, so a boolean default never reaches the integer case.
\<close>

definition validate_like_default :: "pyval \<Rightarrow> pyval \<Rightarrow> path option \<Rightarrow> string \<Rightarrow> exn + pyval" where
  "validate_like_default v dflt p field_name =
     (if v = PNone then Inr dflt
      else if isinstance_bool dflt then
        (if isinstance_bool v then Inr v
         else Inl (ConfigError (field_name @ '' must be a boolean.'') p))
      else if isinstance_int dflt then
        (if isinstance_int v \<and> \<not> isinstance_bool v then Inr v
         else Inl (ConfigError (field_name @ '' must be an integer.'') p))
      else if isinstance_float dflt then
        (if (isinstance_int v \<or> isinstance_float v) \<and> \<not> isinstance_bool v then Inr (py_float v)
         else Inl (ConfigError (field_name @ '' must be a number.'') p))
      else if isinstance_str dflt then
        (if isinstance_str v then Inr v
         else Inl (ConfigError (field_name @ '' must be a string.'') p))
      else if isinstance_list dflt then
        (if isinstance_list v then Inr v
         else Inl (ConfigError (field_name @ '' must be a list.'') p))
      else if isinstance_tuple dflt then
        (case v of PList xs \<Rightarrow> Inr (PTuple xs)
         | PTuple xs \<Rightarrow> Inr v
         | _ \<Rightarrow> Inl (ConfigError (field_name @ '' must be a list.'') p))
      else if isinstance_Mapping dflt then
        (if isinstance_Mapping v then Inr v
         else Inl (ConfigError (field_name @ '' must be an object.'') p))
      else Inr v)"

subsection \<open>validate\_config\<close>

text \<open>\<^verbatim>\<open>sorted(set(data.keys()) - allowed)\<close>.\<close>

definition unknown_keys :: "(string \<times> pyval) list \<Rightarrow> string list \<Rightarrow> string list" where
  "unknown_keys d allowed = sort (remdups (filter (\<lambda>k. k \<notin> set allowed) (map fst d)))"

text \<open>
  The inner \<^verbatim>\<open>for validator in field_validators\<close> loop with its \<^verbatim>\<open>try\<close>: a
  \<^verbatim>\<open>ConfigError\<close> is re-raised as it is, any other \<^verbatim>\<open>ValueError\<close> becomes
  \<^verbatim>\<open>ConfigError(str(exc), path=path)\<close>, every other exception propagates.
\<close>

fun run_validators ::
  "FieldValidator list \<Rightarrow> pyval \<Rightarrow> pyval \<Rightarrow> path option \<Rightarrow> string \<Rightarrow> exn + pyval" where
  "run_validators [] v dflt p field_name = Inr v"
| "run_validators (f # fs) v dflt p field_name =
     (case f v dflt p field_name of
        Inr v' \<Rightarrow> run_validators fs v' dflt p field_name
      | Inl e \<Rightarrow>
          (if is_ConfigError e then Inl e
           else if is_ValueError e then Inl (ConfigError (exn_str e) p)
           else Inl e))"

definition field_validators_of :: "option_field \<Rightarrow> FieldValidator list" where
  "field_validators_of f =
     (case meta_validators f of
        Some vs \<Rightarrow> vs
      | None \<Rightarrow> (case meta_validator f of Some v \<Rightarrow> [v] | None \<Rightarrow> []))"

text \<open>The body of \<^verbatim>\<open>for option_field in fields(type(default_section))\<close> for one option.\<close>

definition validate_option ::
  "string \<Rightarrow> (string \<times> pyval) list \<Rightarrow> path option \<Rightarrow> option_field \<Rightarrow> exn + pyval" where
  "validate_option section_name section_data p f =
     (let option_name = opt_name f;
          field_name = section_name @ ''.'' @ option_name;
          default_value = opt_default f;
          raw_value = (case map_of section_data option_name of Some v \<Rightarrow> v | None \<Rightarrow> default_value);
          field_validators = field_validators_of f
      in if field_validators \<noteq> []
         then run_validators field_validators raw_value default_value p field_name
         else validate_like_default raw_value default_value p field_name)"

fun validate_options ::
  "option_field list \<Rightarrow> string \<Rightarrow> (string \<times> pyval) list \<Rightarrow> path option \<Rightarrow> exn + section_value" where
  "validate_options [] section_name section_data p = Inr []"
| "validate_options (f # fs) section_name section_data p =
     (case validate_option section_name section_data p f of
        Inl e \<Rightarrow> Inl e
      | Inr v \<Rightarrow>
          (case validate_options fs section_name section_data p of
             Inl e \<Rightarrow> Inl e
           | Inr kwargs \<Rightarrow> Inr ((opt_name f, v) # kwargs)))"

text \<open>
  \<^verbatim>\<open>section_data = data.get(section_name, {})\<close>, with \<^verbatim>\<open>None\<close> replaced by \<^verbatim>\<open>{}\<close>.
\<close>

definition section_data_of :: "(string \<times> pyval) list \<Rightarrow> string \<Rightarrow> pyval" where
  "section_data_of data section_name =
     (let section_data = (case map_of data section_name of Some v \<Rightarrow> v | None \<Rightarrow> PDict [])
      in if section_data = PNone then PDict [] else section_data)"

text \<open>
  The body of \<^verbatim>\<open>for section_field in fields(MeditConfig)\<close> for one section: the built
  section and the warnings it appends.
\<close>

definition validate_section ::
  "(string \<times> pyval) list \<Rightarrow> path option \<Rightarrow> section_field \<Rightarrow> exn + (section_value \<times> string list)" where
  "validate_section data p sf =
     (let section_name = sec_name sf in
      case sec_default sf of
        NotDataclass x \<Rightarrow>
          Inl (ConfigError (''Internal error: config field '' @ apostrophe @ section_name @ apostrophe
                              @ '' must be a dataclass.'') p)
      | Dataclass opts \<Rightarrow>
          (case section_data_of data section_name of
             PDict section_data \<Rightarrow>
               (let unknown_section_keys = unknown_keys section_data (map opt_name opts);
                    ws = (if unknown_section_keys \<noteq> []
                          then [''Unknown ['' @ section_name @ ''] keys: '' @ join '', '' unknown_section_keys]
                          else [])
                in case validate_options opts section_name section_data p of
                     Inl e \<Rightarrow> Inl e
                   | Inr kwargs \<Rightarrow> Inr (kwargs, ws))
           | _ \<Rightarrow> Inl (ConfigError (''['' @ section_name @ ''] must be a table/object.'') p)))"

fun validate_sections ::
  "section_field list \<Rightarrow> (string \<times> pyval) list \<Rightarrow> path option \<Rightarrow> exn + (config_value \<times> string list)" where
  "validate_sections [] data p = Inr ([], [])"
| "validate_sections (sf # sfs) data p =
     (case validate_section data p sf of
        Inl e \<Rightarrow> Inl e
      | Inr (built, ws) \<Rightarrow>
          (case validate_sections sfs data p of
             Inl e \<Rightarrow> Inl e
           | Inr (built_sections, ws') \<Rightarrow> Inr ((sec_name sf, built) # built_sections, ws @ ws')))"

text \<open>\<^verbatim>\<open>validate_config\<close> over a schema, and over the schema of \<^verbatim>\<open>MeditConfig\<close>.\<close>

definition validate_config_schema ::
  "section_field list \<Rightarrow> pyval \<Rightarrow> path option \<Rightarrow> exn + ConfigResult" where
  "validate_config_schema schema data p =
     (case data of
        PDict d \<Rightarrow>
          (let unknown_root_keys = unknown_keys d (map sec_name schema);
               ws0 = (if unknown_root_keys \<noteq> []
                      then [''Unknown top-level keys: '' @ join '', '' unknown_root_keys]
                      else [])
           in case validate_sections schema d p of
                Inl e \<Rightarrow> Inl e
              | Inr (built_sections, ws) \<Rightarrow>
                  Inr \<lparr>config = built_sections,
                       diagnostics = \<lparr>diag_path = p, warnings = ws0 @ ws, error = None\<rparr>\<rparr>)
      | _ \<Rightarrow> Inl (ConfigError ''Config root must be a table/object.'' p))"

definition validate_config :: "pyval \<Rightarrow> path option \<Rightarrow> exn + ConfigResult" where
  "validate_config data p = validate_config_schema MeditConfig_fields data p"

section \<open>JSON text\<close>

text \<open>
  The program reads a file with \<^verbatim>\<open>json.load\<close> and writes the default file with
  \<^verbatim>\<open>json.dumps(..., indent=2, sort_keys=True)\<close>.  Both belong to Python's standard
  library; this section models them on JSON text as the library documents it.
\<close>

subsection \<open>Decoding\<close>

datatype token =
    TLBrace | TRBrace | TLBracket | TRBracket | TColon | TComma
  | TString string
  | TValue pyval

definition is_ws :: "char \<Rightarrow> bool" where
  "is_ws c = (c = CHR '' '' \<or> c = CHR 0x09 \<or> c = CHR 0x0A \<or> c = CHR 0x0D)"

definition is_digit :: "char \<Rightarrow> bool" where
  "is_digit c = (48 \<le> (of_char c :: nat) \<and> (of_char c :: nat) \<le> 57)"

definition digit_val :: "char \<Rightarrow> nat" where
  "digit_val c = of_char c - 48"

definition nat_of_digits :: "string \<Rightarrow> nat" where
  "nat_of_digits ds = foldl (\<lambda>n c. 10 * n + digit_val c) 0 ds"

definition is_numchar :: "char \<Rightarrow> bool" where
  "is_numchar c = (is_digit c \<or> c = CHR ''-'' \<or> c = CHR ''+'' \<or> c = CHR ''.''
                   \<or> c = CHR ''e'' \<or> c = CHR ''E'')"

text \<open>
  A number literal, matched in full against
  \<^verbatim>\<open>-?(0|[1-9][0-9]*)(\.[0-9]+)?([eE][-+]?[0-9]+)?\<close>: an \<^verbatim>\<open>int\<close> when it has neither
  fraction nor exponent, else a \<^verbatim>\<open>float\<close>.
\<close>

definition number_of :: "string \<Rightarrow> pyval option" where
  "number_of s =
     (let neg = (s \<noteq> [] \<and> hd s = CHR ''-'');
          s1 = (if neg then tl s else s);
          ids = takeWhile is_digit s1;
          r1 = dropWhile is_digit s1;
          has_frac = (r1 \<noteq> [] \<and> hd r1 = CHR ''.'');
          fds = (if has_frac then takeWhile is_digit (tl r1) else []);
          r2 = (if has_frac then dropWhile is_digit (tl r1) else r1);
          has_exp = (r2 \<noteq> [] \<and> (hd r2 = CHR ''e'' \<or> hd r2 = CHR ''E''));
          r3 = (if has_exp then tl r2 else r2);
          eneg = (has_exp \<and> r3 \<noteq> [] \<and> hd r3 = CHR ''-'');
          r4 = (if has_exp \<and> r3 \<noteq> [] \<and> (hd r3 = CHR ''-'' \<or> hd r3 = CHR ''+'') then tl r3 else r3);
          eds = (if has_exp then takeWhile is_digit r4 else []);
          r5 = (if has_exp then dropWhile is_digit r4 else r4)
      in if ids = [] \<or> (length ids > 1 \<and> hd ids = CHR ''0'') then None
         else if has_frac \<and> fds = [] then None
         else if has_exp \<and> eds = [] then None
         else if r5 \<noteq> [] then None
         else if \<not> has_frac \<and> \<not> has_exp
           then Some (PInt (if neg then - int (nat_of_digits ids) else int (nat_of_digits ids)))
         else
           (let m = real (nat_of_digits (ids @ fds));
                e = (if eneg then - int (nat_of_digits eds) else int (nat_of_digits eds)) - int (length fds);
                x = (if e < 0 then m / 10 ^ nat (- e) else m * 10 ^ nat e)
            in Some (PFloat (Finite (if neg then - x else x)))))"

definition hex_val :: "char \<Rightarrow> nat option" where
  "hex_val c =
     (let n = (of_char c :: nat) in
      if 48 \<le> n \<and> n \<le> 57 then Some (n - 48)
      else if 97 \<le> n \<and> n \<le> 102 then Some (n - 87)
      else if 65 \<le> n \<and> n \<le> 70 then Some (n - 55)
      else None)"

text \<open>The four hexadecimal digits of a \<^verbatim>\<open>\uXXXX\<close> escape.\<close>

definition hex4 :: "string \<Rightarrow> nat option" where
  "hex4 s =
     (case map hex_val s of
        [Some a, Some b, Some c, Some d] \<Rightarrow> Some (((a * 16 + b) * 16 + c) * 16 + d)
      | _ \<Rightarrow> None)"

text \<open>The UTF-8 bytes of a code point (a lone surrogate takes the three-byte form).\<close>

definition utf8 :: "nat \<Rightarrow> string" where
  "utf8 cp =
     (if cp < 128 then [char_of cp]
      else if cp < 2048 then [char_of (192 + cp div 64), char_of (128 + cp mod 64)]
      else if cp < 65536
        then [char_of (224 + cp div 4096), char_of (128 + (cp div 64) mod 64), char_of (128 + cp mod 64)]
      else [char_of (240 + cp div 262144), char_of (128 + (cp div 4096) mod 64),
            char_of (128 + (cp div 64) mod 64), char_of (128 + cp mod 64)])"

definition simple_escape :: "char \<Rightarrow> char option" where
  "simple_escape e =
     (if e = CHR 0x22 then Some (CHR 0x22)
      else if e = CHR 0x5C then Some (CHR 0x5C)
      else if e = CHR ''/'' then Some (CHR ''/'')
      else if e = CHR ''b'' then Some (CHR 0x08)
      else if e = CHR ''f'' then Some (CHR 0x0C)
      else if e = CHR ''n'' then Some (CHR 0x0A)
      else if e = CHR ''r'' then Some (CHR 0x0D)
      else if e = CHR ''t'' then Some (CHR 0x09)
      else None)"

definition cons_token :: "token \<Rightarrow> token list option \<Rightarrow> token list option" where
  "cons_token t r = map_option ((#) t) r"

text \<open>
  One token that is neither a string nor white space, starting with the character
  \<open>c\<close> and followed by \<open>cs\<close>: the token and how many characters of \<open>cs\<close> belong to
  it.  No literal starts like a number, so the order of the tests is immaterial.
\<close>

definition scan_token :: "char \<Rightarrow> string \<Rightarrow> (token \<times> nat) option" where
  "scan_token c cs =
     (if c = CHR ''{'' then Some (TLBrace, 0)
      else if c = CHR ''}'' then Some (TRBrace, 0)
      else if c = CHR ''['' then Some (TLBracket, 0)
      else if c = CHR '']'' then Some (TRBracket, 0)
      else if c = CHR '':'' then Some (TColon, 0)
      else if c = CHR '','' then Some (TComma, 0)
      else if c = CHR ''n'' \<and> take 3 cs = ''ull'' then Some (TValue PNone, 3)
      else if c = CHR ''t'' \<and> take 3 cs = ''rue'' then Some (TValue (PBool True), 3)
      else if c = CHR ''f'' \<and> take 4 cs = ''alse'' then Some (TValue (PBool False), 4)
      else if c = CHR ''N'' \<and> take 2 cs = ''aN'' then Some (TValue (PFloat NaN), 2)
      else if c = CHR ''I'' \<and> take 7 cs = ''nfinity'' then Some (TValue (PFloat PosInf), 7)
      else if c = CHR ''-'' \<and> take 8 cs = ''Infinity'' then Some (TValue (PFloat NegInf), 8)
      else if is_digit c \<or> c = CHR ''-'' then
        (case number_of (c # takeWhile is_numchar cs) of
           None \<Rightarrow> None
         | Some v \<Rightarrow> Some (TValue v, length (takeWhile is_numchar cs)))
      else None)"

text \<open>
  An escape inside a string, \<open>cs\<close> being what follows the backslash: the decoded bytes
  and how many characters of \<open>cs\<close> the escape takes.  A high surrogate followed by the
  escape of a low surrogate is one code point.
\<close>

definition scan_escape :: "string \<Rightarrow> (string \<times> nat) option" where
  "scan_escape cs =
     (case cs of
        [] \<Rightarrow> None
      | e # cs' \<Rightarrow>
          if e = CHR ''u'' then
            (case hex4 (take 4 cs') of
               None \<Rightarrow> None
             | Some hi \<Rightarrow>
                 (case (if 55296 \<le> hi \<and> hi \<le> 56319 \<and> take 2 (drop 4 cs') = [CHR 0x5C, CHR ''u'']
                        then hex4 (take 4 (drop 6 cs')) else None) of
                    Some lo \<Rightarrow>
                      if 56320 \<le> lo \<and> lo \<le> 57343
                      then Some (utf8 (65536 + (hi - 55296) * 1024 + (lo - 56320)), 11)
                      else Some (utf8 hi, 5)
                  | None \<Rightarrow> Some (utf8 hi, 5)))
          else
            (case simple_escape e of
               None \<Rightarrow> None
             | Some ch \<Rightarrow> Some ([ch], 1)))"

text \<open>
  The scanner.  Its first argument is \<open>None\<close> between tokens and \<open>Some acc\<close> inside a
  string literal, \<open>acc\<close> holding the decoded bytes read so far, last first.  A control
  character inside a string, an unknown escape, an unknown literal and an unterminated
  string have no tokens.
\<close>

fun lex :: "string option \<Rightarrow> string \<Rightarrow> token list option" where
  "lex None [] = Some []"
| "lex (Some acc) [] = None"
| "lex None (c # cs) =
     (if is_ws c then lex None cs
      else if c = CHR 0x22 then lex (Some []) cs
      else
        (case scan_token c cs of
           None \<Rightarrow> None
         | Some (t, n) \<Rightarrow> cons_token t (lex None (drop n cs))))"
| "lex (Some acc) (c # cs) =
     (if c = CHR 0x22 then cons_token (TString (rev acc)) (lex None cs)
      else if c = CHR 0x5C then
        (case scan_escape cs of
           None \<Rightarrow> None
         | Some (bs, n) \<Rightarrow> lex (Some (rev bs @ acc)) (drop n cs))
      else if (of_char c :: nat) < 32 then None
      else lex (Some (c # acc)) cs)"

text \<open>
  The parser: a stack of the containers that are open, and what may come next.  An
  object keeps a repeated key at its first position with its last value, as
  \<^verbatim>\<open>dict\<close> does.
\<close>

datatype frame =
    FArr "pyval list"
  | FObj "(string \<times> pyval) list"
  | FKey "(string \<times> pyval) list" string

datatype expect =
    ExpValue | ExpValueOrEnd | ExpKey | ExpKeyOrEnd | ExpColon | ExpSep | Done pyval

fun put_value :: "pyval \<Rightarrow> frame list \<Rightarrow> (expect \<times> frame list) option" where
  "put_value v [] = Some (Done v, [])"
| "put_value v (FArr acc # st) = Some (ExpSep, FArr (v # acc) # st)"
| "put_value v (FKey kvs k # st) = Some (ExpSep, FObj (AList.update k v kvs) # st)"
| "put_value v (FObj kvs # st) = None"

fun step :: "expect \<Rightarrow> frame list \<Rightarrow> token \<Rightarrow> (expect \<times> frame list) option" where
  "step (Done v) st t = None"
| "step ExpColon st t = (if t = TColon then Some (ExpValue, st) else None)"
| "step ExpSep st t =
     (case (t, st) of
        (TComma, FArr acc # st') \<Rightarrow> Some (ExpValue, st)
      | (TComma, FObj kvs # st') \<Rightarrow> Some (ExpKey, st)
      | (TRBracket, FArr acc # st') \<Rightarrow> put_value (PList (rev acc)) st'
      | (TRBrace, FObj kvs # st') \<Rightarrow> put_value (PDict kvs) st'
      | _ \<Rightarrow> None)"
| "step ExpKey st t =
     (case (t, st) of
        (TString k, FObj kvs # st') \<Rightarrow> Some (ExpColon, FKey kvs k # st')
      | _ \<Rightarrow> None)"
| "step ExpKeyOrEnd st t =
     (case (t, st) of
        (TString k, FObj kvs # st') \<Rightarrow> Some (ExpColon, FKey kvs k # st')
      | (TRBrace, FObj kvs # st') \<Rightarrow> put_value (PDict kvs) st'
      | _ \<Rightarrow> None)"
| "step ExpValue st t =
     (case t of
        TValue v \<Rightarrow> put_value v st
      | TString s \<Rightarrow> put_value (PStr s) st
      | TLBracket \<Rightarrow> Some (ExpValueOrEnd, FArr [] # st)
      | TLBrace \<Rightarrow> Some (ExpKeyOrEnd, FObj [] # st)
      | _ \<Rightarrow> None)"
| "step ExpValueOrEnd st t =
     (case t of
        TValue v \<Rightarrow> put_value v st
      | TString s \<Rightarrow> put_value (PStr s) st
      | TLBracket \<Rightarrow> Some (ExpValueOrEnd, FArr [] # st)
      | TLBrace \<Rightarrow> Some (ExpKeyOrEnd, FObj [] # st)
      | TRBracket \<Rightarrow> (case st of FArr acc # st' \<Rightarrow> put_value (PList (rev acc)) st' | _ \<Rightarrow> None)
      | _ \<Rightarrow> None)"

fun parse_tokens :: "expect \<Rightarrow> frame list \<Rightarrow> token list \<Rightarrow> pyval option" where
  "parse_tokens e st [] = (case (e, st) of (Done v, []) \<Rightarrow> Some v | _ \<Rightarrow> None)"
| "parse_tokens e st (t # ts) =
     (case step e st t of None \<Rightarrow> None | Some (e', st') \<Rightarrow> parse_tokens e' st' ts)"

text \<open>
  \<^verbatim>\<open>json.loads\<close>.  The message of a \<^verbatim>\<open>JSONDecodeError\<close> (Python gives the position
  of the error) is not reproduced: no code of the program reads it.
\<close>

definition json_loads :: "string \<Rightarrow> exn + pyval" where
  "json_loads s =
     (case lex None s of
        None \<Rightarrow> Inl (JSONDecodeError ''Invalid JSON'')
      | Some ts \<Rightarrow>
          (case parse_tokens ExpValue [] ts of
             None \<Rightarrow> Inl (JSONDecodeError ''Invalid JSON'')
           | Some v \<Rightarrow> Inr v))"

subsection \<open>Encoding\<close>

text \<open>
  \<^verbatim>\<open>json.dumps(obj, indent=2, sort_keys=True)\<close>, with the default \<^verbatim>\<open>ensure_ascii\<close>.
  The encoder is modelled on nested dicts, lists and tuples of ASCII strings, integers,
  booleans, \<^verbatim>\<open>None\<close> and the non-finite floats; the \<^verbatim>\<open>repr\<close> of a finite float and
  the escapes of text beyond ASCII are not modelled, and the result is \<open>None\<close> there.
\<close>

definition hex_digit :: "nat \<Rightarrow> char" where
  "hex_digit n = (if n < 10 then char_of (48 + n) else char_of (87 + n))"

definition escape_char :: "char \<Rightarrow> string option" where
  "escape_char c =
     (let n = (of_char c :: nat) in
      if c = CHR 0x22 then Some [CHR 0x5C, CHR 0x22]
      else if c = CHR 0x5C then Some [CHR 0x5C, CHR 0x5C]
      else if c = CHR 0x0A then Some [CHR 0x5C, CHR ''n'']
      else if c = CHR 0x0D then Some [CHR 0x5C, CHR ''r'']
      else if c = CHR 0x09 then Some [CHR 0x5C, CHR ''t'']
      else if c = CHR 0x08 then Some [CHR 0x5C, CHR ''b'']
      else if c = CHR 0x0C then Some [CHR 0x5C, CHR ''f'']
      else if n < 32 \<or> n = 127
        then Some ([CHR 0x5C, CHR ''u'', CHR ''0'', CHR ''0'', hex_digit (n div 16), hex_digit (n mod 16)])
      else if n < 127 then Some [c]
      else None)"

definition json_string :: "string \<Rightarrow> string option" where
  "json_string s = map_option (\<lambda>parts. dquote @ concat parts @ dquote) (those (map escape_char s))"

text \<open>The line break before an item at nesting depth \<open>level\<close>.\<close>

definition newline_indent :: "nat \<Rightarrow> string" where
  "newline_indent level = newline @ replicate (2 * level) (CHR '' '')"

definition json_item :: "string \<Rightarrow> string option \<Rightarrow> string option" where
  "json_item k rendered =
     (case (json_string k, rendered) of
        (Some ks, Some vs) \<Rightarrow> Some (ks @ '': '' @ vs)
      | _ \<Rightarrow> None)"

definition json_block :: "string \<Rightarrow> string \<Rightarrow> nat \<Rightarrow> string list \<Rightarrow> string" where
  "json_block opening closing level parts =
     opening @ newline_indent (Suc level) @ join ('','' @ newline_indent (Suc level)) parts
       @ newline_indent level @ closing"

text \<open>
  The items of a dict are written in the order of their keys (\<^verbatim>\<open>sort_keys=True\<close>);
  \<open>sort_key fst\<close> is stable and the keys of a dict are distinct.
\<close>

fun json_dumps :: "nat \<Rightarrow> pyval \<Rightarrow> string option" where
  "json_dumps level PNone = Some ''null''"
| "json_dumps level (PBool b) = Some (if b then ''true'' else ''false'')"
| "json_dumps level (PInt n) = Some (str_int n)"
| "json_dumps level (PFloat x) =
     (case x of NaN \<Rightarrow> Some ''NaN'' | PosInf \<Rightarrow> Some ''Infinity'' | NegInf \<Rightarrow> Some ''-Infinity''
      | Finite r \<Rightarrow> None)"
| "json_dumps level (PStr s) = json_string s"
| "json_dumps level (PList xs) =
     (if xs = [] then Some ''[]''
      else map_option (json_block ''['' '']'' level) (those (map (json_dumps (Suc level)) xs)))"
| "json_dumps level (PTuple xs) =
     (if xs = [] then Some ''[]''
      else map_option (json_block ''['' '']'' level) (those (map (json_dumps (Suc level)) xs)))"
| "json_dumps level (PDict d) =
     (if d = [] then Some ''{}''
      else map_option (json_block ''{'' ''}'' level)
             (those (map (\<lambda>kv. json_item (fst kv) (json_dumps (Suc level) (snd kv))) (sort_key fst d))))"

text \<open>
  \<^verbatim>\<open>asdict\<close> of a config, \<^verbatim>\<open>default_config_data\<close> and \<^verbatim>\<open>default_config_text\<close>.  The
  default data is inside the fragment that the encoder models (see
  \<open>default_config_text_eq\<close>), so the second branch below is never taken.
\<close>

definition asdict :: "config_value \<Rightarrow> pyval" where
  "asdict c = PDict (map (\<lambda>(section_name, values). (section_name, PDict values)) c)"

definition default_config_data :: pyval where
  "default_config_data = asdict MeditConfig_init"

definition default_config_text :: string where
  "default_config_text =
     (case json_dumps 0 default_config_data of Some s \<Rightarrow> s @ newline | None \<Rightarrow> [])"

section \<open>The process environment\<close>

text \<open>
  What the program reads from its surroundings: \<^verbatim>\<open>sys.platform\<close>, the environment
  variables, the working directory, the home directory, and \<^verbatim>\<open>os.path.expanduser\<close>
  and \<^verbatim>\<open>os.path.expandvars\<close>, taken as they are.  \<open>write_error\<close> says whether the
  operating system refuses to create the file at a path (\<^verbatim>\<open>mkdir\<close> or
  \<^verbatim>\<open>write_text\<close> raising \<^verbatim>\<open>OSError\<close> with that message).
\<close>

record os_env =
  platform :: string
  environ :: "string \<rightharpoonup> string"
  cwd :: path
  home :: path
  expanduser :: "string \<Rightarrow> string"
  expandvars :: "string \<Rightarrow> string"
  write_error :: "path \<Rightarrow> string option"

text \<open>
  The file system holds the text of its regular files; \<^verbatim>\<open>Path.is_file\<close> is membership.
  The process state is the file system and the module's global \<^verbatim>\<open>_CACHED_RESULT\<close>.
  Errors of opening or decoding an existing regular file are outside the model.
\<close>

type_synonym fs = "path \<rightharpoonup> string"

definition is_file :: "fs \<Rightarrow> path \<Rightarrow> bool" where
  "is_file files p = (files p \<noteq> None)"

record state =
  cached :: "ConfigResult option"
  files :: fs

subsection \<open>Paths\<close>

text \<open>
  A \<^verbatim>\<open>Path\<close> is its text in the POSIX flavour.  \<open>joinpath p c\<close> is \<^verbatim>\<open>p / c\<close> for a
  relative \<open>c\<close>; \<open>path_name\<close> and \<open>path_suffix\<close> are \<^verbatim>\<open>Path.name\<close> and
  \<^verbatim>\<open>Path.suffix\<close>: the suffix starts at the last dot of the name, unless that dot is
  the first or the last character of the name.
\<close>

definition joinpath :: "path \<Rightarrow> string \<Rightarrow> path" where
  "joinpath p c = (if p = [] then c else if last p = CHR ''/'' then p @ c else p @ ''/'' @ c)"

definition path_name :: "path \<Rightarrow> string" where
  "path_name p = rev (takeWhile (\<lambda>c. c \<noteq> CHR ''/'') (rev p))"

definition path_suffix :: "path \<Rightarrow> string" where
  "path_suffix p =
     (let name = path_name p;
          ext = rev (takeWhile (\<lambda>c. c \<noteq> CHR ''.'') (rev name))
      in if CHR ''.'' \<in> set name \<and> ext \<noteq> [] \<and> length ext + 1 < length name
         then CHR ''.'' # ext else [])"

text \<open>
  The truth value of a result of \<^verbatim>\<open>os.getenv\<close> (set and not empty), \<^verbatim>\<open>a or b\<close> on
  two such results, and the value that passes \<^verbatim>\<open>if base:\<close>.
\<close>

definition truthy :: "string option \<Rightarrow> bool" where
  "truthy x = (case x of None \<Rightarrow> False | Some s \<Rightarrow> s \<noteq> [])"

definition py_or :: "string option \<Rightarrow> string option \<Rightarrow> string option" where
  "py_or a b = (if truthy a then a else b)"

definition if_set :: "string option \<Rightarrow> string option" where
  "if_set x = (if truthy x then x else None)"

definition user_config_dir :: "os_env \<Rightarrow> string \<Rightarrow> path" where
  "user_config_dir w app_name =
     (if platform w = ''win32'' then
        (case if_set (py_or (environ w ''APPDATA'') (environ w ''LOCALAPPDATA'')) of
           Some base \<Rightarrow> joinpath base app_name
         | None \<Rightarrow> joinpath (joinpath (joinpath (home w) ''AppData'') ''Roaming'') app_name)
      else if platform w = ''darwin'' then
        joinpath (joinpath (joinpath (home w) ''Library'') ''Application Support'') app_name
      else
        (case if_set (environ w ''XDG_CONFIG_HOME'') of
           Some base \<Rightarrow> joinpath base app_name
         | None \<Rightarrow> joinpath (joinpath (home w) ''.config'') app_name))"

text \<open>
  \<^verbatim>\<open>_expand_path\<close> and \<^verbatim>\<open>_env_config_path\<close>.  \<^verbatim>\<open>Path(expanded)\<close> is the text
  itself: the normal form that \<^verbatim>\<open>pathlib\<close> gives a path is not modelled.
\<close>

definition expand_path :: "os_env \<Rightarrow> string \<Rightarrow> path" where
  "expand_path w raw = expandvars w (expanduser w raw)"

definition env_config_path :: "os_env \<Rightarrow> path option" where
  "env_config_path w =
     (case if_set (py_or (environ w ''MEDIT_CONFIG'') (environ w ''MICROEDIT_CONFIG'')) of
        None \<Rightarrow> None
      | Some raw \<Rightarrow> Some (expand_path w raw))"

definition config_search_paths :: "os_env \<Rightarrow> path list" where
  "config_search_paths w =
     [joinpath (cwd w) ''medit.json'', joinpath (cwd w) ''.medit.json'']
       @ [joinpath (user_config_dir w ''medit'') ''config.json'']"

definition default_config_path :: "os_env \<Rightarrow> path" where
  "default_config_path w = joinpath (user_config_dir w ''medit'') ''config.json''"

text \<open>
  \<^verbatim>\<open>write_default_config\<close>: the file system after the write, or the \<^verbatim>\<open>OSError\<close>.
\<close>

definition write_default_config :: "os_env \<Rightarrow> fs \<Rightarrow> path \<Rightarrow> exn + fs" where
  "write_default_config w fls p =
     (case write_error w p of
        Some m \<Rightarrow> Inl (OSError m)
      | None \<Rightarrow> Inr (fls(p \<mapsto> default_config_text)))"

subsection \<open>Discovery\<close>

text \<open>The loop \<^verbatim>\<open>for path in config_search_paths(): if path.is_file(): return path\<close>.\<close>

fun first_file :: "fs \<Rightarrow> path list \<Rightarrow> path option" where
  "first_file fls [] = None"
| "first_file fls (p # ps) = (if is_file fls p then Some p else first_file fls ps)"

definition discover_config_path :: "os_env \<Rightarrow> fs \<Rightarrow> path option" where
  "discover_config_path w fls =
     (case env_config_path w of
        Some env_path \<Rightarrow> Some env_path
      | None \<Rightarrow> first_file fls (config_search_paths w))"

subsection \<open>Loading\<close>

text \<open>
  \<^verbatim>\<open>_load_json\<close>, \<^verbatim>\<open>_load_raw_config\<close> and \<^verbatim>\<open>load_config\<close>.  \<^verbatim>\<open>json.load\<close> raises
  \<^verbatim>\<open>JSONDecodeError\<close> on text that is not JSON, and \<^verbatim>\<open>_load_json\<close> has no handler
  for it.  The program calls \<open>load_json\<close> only on a path that holds a regular file.
\<close>

definition load_json :: "fs \<Rightarrow> path \<Rightarrow> exn + pyval" where
  "load_json fls p =
     (case fls p of
        None \<Rightarrow> Inl (OSError ''No such file or directory'')
      | Some text \<Rightarrow>
          (case json_loads text of
             Inl e \<Rightarrow> Inl e
           | Inr data \<Rightarrow>
               if \<not> isinstance_Mapping data
               then Inl (ConfigError ''JSON config root must be an object.'' (Some p))
               else Inr data))"

definition load_raw_config :: "fs \<Rightarrow> path \<Rightarrow> exn + pyval" where
  "load_raw_config fls p =
     (let suffix = py_lower (path_suffix p) in
      if suffix \<noteq> ''.json''
      then Inl (ConfigError (''Unsupported config file type '' @ apostrophe @ path_suffix p @ apostrophe
                               @ ''. Use .json.'') (Some p))
      else load_json fls p)"

definition load_config :: "fs \<Rightarrow> path \<Rightarrow> exn + ConfigResult" where
  "load_config fls p =
     (case load_raw_config fls p of
        Inl e \<Rightarrow> Inl e
      | Inr raw \<Rightarrow> validate_config raw (Some p))"

subsection \<open>get\_config\_result and the cache\<close>

text \<open>A result with the all-default config and one error.\<close>

definition default_result :: "path \<Rightarrow> string \<Rightarrow> ConfigResult" where
  "default_result p msg =
     \<lparr>config = MeditConfig_init,
      diagnostics = \<lparr>diag_path = Some p, warnings = [], error = Some msg\<rparr>\<rparr>"

text \<open>
  The last \<^verbatim>\<open>try\<close> of \<^verbatim>\<open>get_config_result\<close>: only \<^verbatim>\<open>ConfigError\<close> is caught, with
  \<^verbatim>\<open>exc.path or config_path\<close> as the path of the diagnostics; any other exception
  leaves the function, and the cache stays as it was.
\<close>

definition load_and_cache :: "path \<Rightarrow> state \<Rightarrow> (exn + ConfigResult) \<times> state" where
  "load_and_cache config_path s =
     (case load_config (files s) config_path of
        Inr r \<Rightarrow> (Inr r, s\<lparr>cached := Some r\<rparr>)
      | Inl (ConfigError msg exc_path) \<Rightarrow>
          (let r = default_result (case exc_path of Some q \<Rightarrow> q | None \<Rightarrow> config_path) msg
           in (Inr r, s\<lparr>cached := Some r\<rparr>))
      | Inl e \<Rightarrow> (Inl e, s))"

text \<open>
  \<^verbatim>\<open>get_config_result\<close> after its two early returns: discovery, the default file when
  nothing is found, and loading.
\<close>

definition discover_and_load :: "os_env \<Rightarrow> state \<Rightarrow> (exn + ConfigResult) \<times> state" where
  "discover_and_load w s =
     (case discover_config_path w (files s) of
        Some config_path \<Rightarrow> load_and_cache config_path s
      | None \<Rightarrow>
          (let default_path = default_config_path w in
           case write_default_config w (files s) default_path of
             Inr fls' \<Rightarrow> load_and_cache default_path (s\<lparr>files := fls'\<rparr>)
           | Inl (OSError m) \<Rightarrow>
               (let r = default_result default_path (''Failed to create default config: '' @ m)
                in (Inr r, s\<lparr>cached := Some r\<rparr>))
           | Inl e \<Rightarrow> (Inl e, s)))"

text \<open>The condition \<^verbatim>\<open>env_path is not None and not env_path.is_file()\<close>.\<close>

definition missing_override :: "os_env \<Rightarrow> fs \<Rightarrow> path option" where
  "missing_override w fls =
     (case env_config_path w of
        None \<Rightarrow> None
      | Some env_path \<Rightarrow> (if \<not> is_file fls env_path then Some env_path else None))"

definition get_config_result :: "os_env \<Rightarrow> state \<Rightarrow> (exn + ConfigResult) \<times> state" where
  "get_config_result w s =
     (case cached s of
        Some r \<Rightarrow> (Inr r, s)
      | None \<Rightarrow>
          (case missing_override w (files s) of
             Some env_path \<Rightarrow>
               (let r = default_result env_path (''Config file from $MEDIT_CONFIG not found: '' @ env_path)
                in (Inr r, s\<lparr>cached := Some r\<rparr>))
           | None \<Rightarrow> discover_and_load w s))"

definition get_config :: "os_env \<Rightarrow> state \<Rightarrow> (exn + config_value) \<times> state" where
  "get_config w s =
     (case get_config_result w s of
        (Inr r, s') \<Rightarrow> (Inr (config r), s')
      | (Inl e, s') \<Rightarrow> (Inl e, s'))"

definition clear_config_cache :: "state \<Rightarrow> state" where
  "clear_config_cache s = s\<lparr>cached := None\<rparr>"

section \<open>Reference definitions and example environments\<close>



text \<open>
  A Linux process in \<^verbatim>\<open>/work\<close> with no environment variable set, on a file system
  that accepts every write; and file systems for the scenarios of the specification.
\<close>

definition example_env :: os_env where
  "example_env =
     \<lparr>platform = ''linux'', environ = Map.empty, cwd = ''/work'', home = ''/home/u'',
      expanduser = (\<lambda>s. s), expandvars = (\<lambda>s. s), write_error = (\<lambda>p. None)\<rparr>"

definition example_state :: "(path \<times> string) list \<Rightarrow> state" where
  "example_state fls = \<lparr>cached = None, files = map_of fls\<rparr>"

section \<open>Verified properties\<close>

subsection \<open>Evaluation of the schema\<close>

lemmas validate_defs =
  validate_config_def validate_config_schema_def MeditConfig_fields_def CommandsConfig_fields_def
  validate_section_def section_data_of_def validate_option_def field_validators_of_def
  validate_string_def
  below_bound_def above_bound_def or_default_def display_of_def unknown_keys_def

lemmas default_data_defs =
  default_config_data_def asdict_def MeditConfig_init_def CommandsConfig_init_def

text \<open>The text that \<^verbatim>\<open>default_config_text()\<close> returns, and its decoding.\<close>

lemma default_config_text_eq:
  "default_config_text =
     ''{'' @ newline @ ''  '' @ dquote @ ''commands'' @ dquote @ '': {'' @ newline
       @ ''    '' @ dquote @ ''separator'' @ dquote @ '': '' @ dquote @ '','' @ dquote @ newline
       @ ''  }'' @ newline @ ''}'' @ newline"
  by (simp add: default_config_text_def default_data_defs json_item_def json_string_def
      json_block_def newline_indent_def escape_char_def dquote_def newline_def eval_nat_numeral)

lemma json_loads_default_text: "json_loads default_config_text = Inr default_config_data"
  unfolding default_config_text_eq
  by (simp add: json_loads_def scan_token_def is_ws_def cons_token_def dquote_def newline_def
      default_data_defs is_digit_def)

lemma validate_default_data:
  "validate_config default_config_data p =
     Inr \<lparr>config = MeditConfig_init,
          diagnostics = \<lparr>diag_path = p, warnings = [], error = None\<rparr>\<rparr>"
  by (simp add: default_data_defs validate_defs)

subsection \<open>C2: the default text round-trips\<close>

text \<open>
  C2.  Decoding the text of \<^verbatim>\<open>default_config_text()\<close> as JSON succeeds, and
  \<^verbatim>\<open>validate_config\<close> of the decoded mapping returns the all-default config with no
  warning and no error (whatever path is passed along).
\<close>

theorem default_text_round_trip:
  "\<exists>data. json_loads default_config_text = Inr data
     \<and> validate_config data p =
         Inr \<lparr>config = MeditConfig_init,
              diagnostics = \<lparr>diag_path = p, warnings = [], error = None\<rparr>\<rparr>"
  using json_loads_default_text validate_default_data by blast

theorem default_text_round_trip_witness:
  "\<exists>data. json_loads default_config_text = Inr data
     \<and> validate_config data None =
         Inr \<lparr>config = [(''commands'', [(''separator'', PStr '','')])],
              diagnostics = \<lparr>diag_path = None, warnings = [], error = None\<rparr>\<rparr>"
  using default_text_round_trip [of None]
  by (simp add: MeditConfig_init_def CommandsConfig_init_def)

subsection \<open>C5: the empty separator\<close>

text \<open>
  C5.  Validating \<^verbatim>\<open>{"commands": {"separator": ""}}\<close> raises a \<^verbatim>\<open>ConfigError\<close> whose
  message is exactly \<^verbatim>\<open>Command separator must not be empty.\<close>; the error carries the
  path given to \<^verbatim>\<open>validate_config\<close>.
\<close>

theorem empty_separator_rejected:
  "validate_config (PDict [(''commands'', PDict [(''separator'', PStr '''')])]) p
     = Inl (ConfigError ''Command separator must not be empty.'' p)"
  by (simp add: validate_defs)

theorem empty_separator_rejected_witness:
  "validate_config (PDict [(''commands'', PDict [(''separator'', PStr '''')])]) (Some ''./medit.json'')
     = Inl (ConfigError ''Command separator must not be empty.'' (Some ''./medit.json''))"
  by (rule empty_separator_rejected [of "Some ''./medit.json''"])

subsection \<open>C8: integers are not booleans\<close>

text \<open>
  C8.  \<^verbatim>\<open>validate_int\<close> raises \<^verbatim>\<open>ValueError\<close> on every boolean, whatever its label
  and bounds; the coercion against a default raises \<^verbatim>\<open>ConfigError\<close> when the default
  is an integer and the value a boolean, also when reached through an option that
  declares no validator; and a boolean does pass \<^verbatim>\<open>isinstance(value, int)\<close>.
\<close>

theorem booleans_are_not_integers:
  "validate_int label lo hi (PBool b) dflt p field_name
     = Inl (ValueError (display_of label field_name @ '' must be an integer.''))
   \<and> validate_like_default (PBool b) (PInt d) p field_name
     = Inl (ConfigError (field_name @ '' must be an integer.'') p)
   \<and> validate_option section_name ((option_name, PBool b) # section_data) p
        \<lparr>opt_name = option_name, opt_default = PInt d, meta_validators = None, meta_validator = None\<rparr>
     = Inl (ConfigError (section_name @ ''.'' @ option_name @ '' must be an integer.'') p)
   \<and> isinstance_int (PBool b)"
  by (simp add: validate_int_def validate_like_default_def or_default_def validate_option_def
      field_validators_of_def)

theorem booleans_are_not_integers_witness:
  "validate_int None (Some 0) (Some 10) (PBool True) (PInt 4) None ''editor.tab_width''
     = Inl (ValueError ''editor.tab_width must be an integer.'')
   \<and> validate_like_default (PBool True) (PInt 4) None ''editor.tab_width''
     = Inl (ConfigError ''editor.tab_width must be an integer.'' None)
   \<and> validate_option ''editor'' [(''tab_width'', PBool True)] None
        \<lparr>opt_name = ''tab_width'', opt_default = PInt 4, meta_validators = None, meta_validator = None\<rparr>
     = Inl (ConfigError ''editor.tab_width must be an integer.'' None)
   \<and> isinstance_int (PBool True)"
  using booleans_are_not_integers
    [of None "Some 0" "Some 10" True "PInt 4" None "''editor.tab_width''" 4 "''editor''" "''tab_width''" "[]"]
  by (simp add: display_of_def)

subsection \<open>Evaluation of the examples\<close>

lemma json_loads_error: "json_loads t = Inl e \<Longrightarrow> e = JSONDecodeError ''Invalid JSON''"
  by (auto simp: json_loads_def split: option.splits)

lemma example_discover:
  "discover_config_path example_env (files (example_state ((''/work/medit.json'', t) # rest)))
     = Some ''/work/medit.json''"
  by (simp add: discover_config_path_def env_config_path_def py_or_def if_set_def truthy_def
      example_env_def example_state_def config_search_paths_def joinpath_def is_file_def)

lemma medit_json_suffix: "py_lower (path_suffix ''/work/medit.json'') = ''.json''"
  by (simp add: py_lower_def lower_char_def path_suffix_def path_name_def)

subsection \<open>C10: the extension check\<close>

lemma load_json_not_unsupported:
  "load_json fls p \<noteq> Inl (ConfigError (''Unsupported config file type '' @ rest) q)"
  by (auto simp: load_json_def split: option.splits sum.splits dest: json_loads_error)

lemma path_name_append:
  assumes "CHR ''/'' \<notin> set nm" and "pre = [] \<or> last pre = CHR ''/''"
  shows "path_name (pre @ nm) = nm"
proof (cases "pre = []")
  case True
  have h: "takeWhile (\<lambda>c. c \<noteq> CHR ''/'') (rev nm) = rev nm"
    using assms(1) by (auto simp: takeWhile_eq_all_conv)
  show ?thesis using True by (simp add: path_name_def h)
next
  case False
  then obtain d where pre: "pre = d @ [CHR ''/'']"
    using assms(2) by (metis append_butlast_last_id)
  have "\<forall>x\<in>set (rev nm). x \<noteq> CHR ''/''" using assms(1) by auto
  then have "takeWhile (\<lambda>c. c \<noteq> CHR ''/'') (rev nm @ CHR ''/'' # rev d) = rev nm"
    by (simp add: takeWhile_tail)
  then show ?thesis by (simp add: path_name_def pre)
qed

lemma path_suffix_stem:
  assumes "CHR ''/'' \<notin> set stem" and "stem \<noteq> []" and "CHR ''.'' \<notin> set ext"
    and "CHR ''/'' \<notin> set ext" and "ext \<noteq> []" and "pre = [] \<or> last pre = CHR ''/''"
  shows "path_suffix (pre @ stem @ ''.'' @ ext) = ''.'' @ ext"
proof -
  have nm: "path_name (pre @ stem @ ''.'' @ ext) = stem @ ''.'' @ ext"
    using assms by (intro path_name_append) auto
  have "\<forall>x\<in>set (rev ext). x \<noteq> CHR ''.''" using assms(3) by auto
  then have "takeWhile (\<lambda>c. c \<noteq> CHR ''.'') (rev ext @ CHR ''.'' # rev stem) = rev ext"
    by (simp add: takeWhile_tail)
  then show ?thesis unfolding path_suffix_def nm Let_def using assms by simp
qed

lemma upper_json_accepted:
  assumes "CHR ''/'' \<notin> set stem" and "stem \<noteq> []" and "pre = [] \<or> last pre = CHR ''/''"
    and "ext = ''JSON'' \<or> ext = ''Json''"
  shows "load_raw_config fls (pre @ stem @ ''.'' @ ext) = load_json fls (pre @ stem @ ''.'' @ ext)"
proof -
  have "path_suffix (pre @ stem @ ''.'' @ ext) = ''.'' @ ext"
    using assms by (intro path_suffix_stem) auto
  moreover have "py_lower (''.'' @ ext) = ''.json''"
    using assms(4) by (auto simp: py_lower_def lower_char_def char_of_def bit_0)
  ultimately show ?thesis unfolding load_raw_config_def Let_def by simp
qed

text \<open>
  C10.  \<^verbatim>\<open>_load_raw_config\<close> raises the \<^verbatim>\<open>Unsupported config file type\<close> error exactly
  when the lowercased suffix of the path differs from \<^verbatim>\<open>.json\<close>; otherwise it is
  \<^verbatim>\<open>_load_json\<close>.  In particular a file name with a non-empty stem that ends in
  \<^verbatim>\<open>.JSON\<close> or \<^verbatim>\<open>.Json\<close>, in any directory, goes on to JSON parsing.
\<close>

theorem extension_check_case_insensitive:
  "(load_raw_config fls p =
      Inl (ConfigError (''Unsupported config file type '' @ apostrophe @ path_suffix p @ apostrophe
                          @ ''. Use .json.'') (Some p)))
     = (py_lower (path_suffix p) \<noteq> ''.json'')
   \<and> (py_lower (path_suffix p) = ''.json'' \<longrightarrow> load_raw_config fls p = load_json fls p)
   \<and> (CHR ''/'' \<notin> set stem \<and> stem \<noteq> [] \<and> (pre = [] \<or> last pre = CHR ''/'') \<longrightarrow>
        load_raw_config fls (pre @ stem @ ''.JSON'') = load_json fls (pre @ stem @ ''.JSON'')
      \<and> load_raw_config fls (pre @ stem @ ''.Json'') = load_json fls (pre @ stem @ ''.Json''))"
proof -
  have a: "(load_raw_config fls p =
      Inl (ConfigError (''Unsupported config file type '' @ apostrophe @ path_suffix p @ apostrophe
                          @ ''. Use .json.'') (Some p)))
     = (py_lower (path_suffix p) \<noteq> ''.json'')"
    using load_json_not_unsupported[of fls p]
    by (auto simp: load_raw_config_def Let_def)
  have b: "py_lower (path_suffix p) = ''.json'' \<longrightarrow> load_raw_config fls p = load_json fls p"
    by (simp add: load_raw_config_def)
  show ?thesis
    using a b upper_json_accepted[of stem pre "''JSON''" fls] upper_json_accepted[of stem pre "''Json''" fls]
    by simp
qed

theorem extension_check_case_insensitive_witness:
  "load_raw_config (map_of [(''/work/medit.JSON'', ''{}'')]) ''/work/medit.JSON'' = Inr (PDict [])
   \<and> load_raw_config (map_of [(''/work/medit.JSON'', ''{}'')]) ''/work/notes.txt''
       = Inl (ConfigError (''Unsupported config file type '' @ apostrophe @ ''.txt'' @ apostrophe
                             @ ''. Use .json.'') (Some ''/work/notes.txt''))"
proof -
  have s1: "path_suffix ''/work/notes.txt'' = ''.txt''"
    by (simp add: path_suffix_def path_name_def)
  have s2: "py_lower ''.txt'' \<noteq> ''.json''"
    by (simp add: py_lower_def lower_char_def)
  have j: "load_json (map_of [(''/work/medit.JSON'', ''{}'')]) ''/work/medit.JSON'' = Inr (PDict [])"
    by (simp add: load_json_def json_loads_def scan_token_def is_ws_def cons_token_def)
  show ?thesis
    using extension_check_case_insensitive
      [of "map_of [(''/work/medit.JSON'', ''{}'')]" "''/work/notes.txt''" "''medit''" "''/work/''"]
      s1 s2 j
    by simp
qed

subsection \<open>C6: discovery order\<close>

lemma env_config_path_unset:
  "\<not> truthy (environ w ''MEDIT_CONFIG'') \<Longrightarrow> \<not> truthy (environ w ''MICROEDIT_CONFIG'')
    \<Longrightarrow> env_config_path w = None"
  by (simp add: env_config_path_def py_or_def if_set_def)


lemma first_file_find: "first_file fls ps = List.find (is_file fls) ps"
  by (induction ps) auto

lemma first_file_cong:
  "\<forall>q\<in>set ps. is_file fls q = is_file fls' q \<Longrightarrow> first_file fls' ps = first_file fls ps"
  by (induction ps) auto

text \<open>
  C6.  With neither \<^verbatim>\<open>MEDIT_CONFIG\<close> nor \<^verbatim>\<open>MICROEDIT_CONFIG\<close> set to a non-empty
  value, \<^verbatim>\<open>discover_config_path\<close> returns the first of \<^verbatim>\<open>cwd/medit.json\<close>,
  \<^verbatim>\<open>cwd/.medit.json\<close> and \<^verbatim>\<open>user-config-dir/config.json\<close> that is a regular file, and
  \<open>None\<close> when none is.  The result depends on the file system only through which of
  the three are regular files: what the files contain plays no part.
\<close>

theorem discovery_order:
  assumes "\<not> truthy (environ w ''MEDIT_CONFIG'')" and "\<not> truthy (environ w ''MICROEDIT_CONFIG'')"
  shows "discover_config_path w fls =
           List.find (is_file fls)
             [joinpath (cwd w) ''medit.json'', joinpath (cwd w) ''.medit.json'',
              joinpath (user_config_dir w ''medit'') ''config.json'']
         \<and> ((\<forall>q \<in> set (config_search_paths w). is_file fls q = is_file fls' q)
              \<longrightarrow> discover_config_path w fls' = discover_config_path w fls)"
  using assms first_file_cong[of "config_search_paths w" fls fls']
  by (simp add: discover_config_path_def env_config_path_unset first_file_find config_search_paths_def)

theorem discovery_order_witness:
  "discover_config_path example_env
     (map_of [(''/home/u/.config/medit/config.json'', ''{}''), (''/work/.medit.json'', ''[]'')])
     = Some ''/work/.medit.json''
   \<and> discover_config_path example_env
     (map_of [(''/home/u/.config/medit/config.json'', ''no JSON''), (''/work/.medit.json'', ''{}'')])
     = Some ''/work/.medit.json''
   \<and> discover_config_path example_env Map.empty = None"
proof -
  have e1: "\<not> truthy (environ example_env ''MEDIT_CONFIG'')"
    and e2: "\<not> truthy (environ example_env ''MICROEDIT_CONFIG'')"
    by (simp_all add: example_env_def truthy_def)
  have paths: "config_search_paths example_env =
      [''/work/medit.json'', ''/work/.medit.json'', ''/home/u/.config/medit/config.json'']"
    by (simp add: config_search_paths_def user_config_dir_def example_env_def joinpath_def if_set_def
        truthy_def)
  show ?thesis
    using discovery_order[OF e1 e2,
        of "map_of [(''/home/u/.config/medit/config.json'', ''{}''), (''/work/.medit.json'', ''[]'')]"
           "map_of [(''/home/u/.config/medit/config.json'', ''no JSON''), (''/work/.medit.json'', ''{}'')]"]
      discovery_order[OF e1 e2, of Map.empty Map.empty]
    using paths by (simp add: config_search_paths_def is_file_def)
qed

subsection \<open>C7: an override that names no file\<close>



subsection \<open>C9: the cache\<close>

lemma load_and_cache_cached:
  "load_and_cache p s = (Inr r, s') \<Longrightarrow> cached s' = Some r"
  by (auto simp: load_and_cache_def Let_def split: sum.splits exn.splits)

lemma get_config_result_cached:
  "get_config_result w s = (Inr r, s') \<Longrightarrow> cached s' = Some r"
  by (auto simp: get_config_result_def discover_and_load_def Let_def
      split: option.splits if_splits sum.splits exn.splits dest: load_and_cache_cached)

text \<open>
  C9.  Once a call of \<^verbatim>\<open>get_config_result\<close> has returned a result, a later call with
  no \<^verbatim>\<open>clear_config_cache\<close> in between returns the same result and changes nothing,
  whatever the file system and the environment have become in the meantime.
\<close>

theorem cached_result_is_returned:
  assumes "get_config_result w s = (Inr r, s')"
  shows "get_config_result w' (s'\<lparr>files := fls'\<rparr>) = (Inr r, s'\<lparr>files := fls'\<rparr>)"
  using get_config_result_cached[OF assms] by (simp add: get_config_result_def)

lemma example_first_call:
  "get_config_result example_env (example_state [(''/work/medit.json'', ''{\"commands\": {\"separator\": \";\"}}'')])
     = (Inr \<lparr>config = [(''commands'', [(''separator'', PStr '';'')])],
             diagnostics = \<lparr>diag_path = Some ''/work/medit.json'', warnings = [], error = None\<rparr>\<rparr>,
        \<lparr>cached = Some \<lparr>config = [(''commands'', [(''separator'', PStr '';'')])],
             diagnostics = \<lparr>diag_path = Some ''/work/medit.json'', warnings = [], error = None\<rparr>\<rparr>,
         files = map_of [(''/work/medit.json'', ''{\"commands\": {\"separator\": \";\"}}'')]\<rparr>)"
proof -
  let ?t = "''{\"commands\": {\"separator\": \";\"}}''"
  have d: "discover_config_path example_env (files (example_state [(''/work/medit.json'', ?t)]))
             = Some ''/work/medit.json''"
    by (rule example_discover)
  have j: "json_loads ?t = Inr (PDict [(''commands'', PDict [(''separator'', PStr '';'')])])"
    by (simp add: json_loads_def scan_token_def is_ws_def cons_token_def is_digit_def)
  have v: "validate_config (PDict [(''commands'', PDict [(''separator'', PStr '';'')])]) (Some ''/work/medit.json'')
             = Inr \<lparr>config = [(''commands'', [(''separator'', PStr '';'')])],
                    diagnostics = \<lparr>diag_path = Some ''/work/medit.json'', warnings = [], error = None\<rparr>\<rparr>"
    by (simp add: validate_defs)
  have l: "load_config (files (example_state [(''/work/medit.json'', ?t)])) ''/work/medit.json''
             = Inr \<lparr>config = [(''commands'', [(''separator'', PStr '';'')])],
                    diagnostics = \<lparr>diag_path = Some ''/work/medit.json'', warnings = [], error = None\<rparr>\<rparr>"
    using j v medit_json_suffix
    by (simp add: load_config_def load_raw_config_def load_json_def example_state_def)
  have e: "env_config_path example_env = None"
    by (simp add: env_config_path_def py_or_def if_set_def truthy_def example_env_def)
  show ?thesis
    using d l e
    by (simp add: get_config_result_def missing_override_def discover_and_load_def load_and_cache_def
        example_state_def)
qed

theorem cached_result_is_returned_witness:
  "fst (get_config_result (example_env\<lparr>environ := [''MEDIT_CONFIG'' \<mapsto> ''/does/not/exist'']\<rparr>)
          \<lparr>cached = Some \<lparr>config = [(''commands'', [(''separator'', PStr '';'')])],
                 diagnostics = \<lparr>diag_path = Some ''/work/medit.json'', warnings = [], error = None\<rparr>\<rparr>,
           files = map_of [(''/work/medit.json'', ''{\"commands\": {\"separator\": \"\"}}'')]\<rparr>)
     = Inr \<lparr>config = [(''commands'', [(''separator'', PStr '';'')])],
            diagnostics = \<lparr>diag_path = Some ''/work/medit.json'', warnings = [], error = None\<rparr>\<rparr>"
  using cached_result_is_returned[OF example_first_call,
      of "example_env\<lparr>environ := [''MEDIT_CONFIG'' \<mapsto> ''/does/not/exist'']\<rparr>"
         "map_of [(''/work/medit.json'', ''{\"commands\": {\"separator\": \"\"}}'')]"]
  by simp

subsection \<open>C1: text that is not JSON\<close>

lemma get_config_result_loads:
  assumes "cached s = None" and "discover_config_path w (files s) = Some p" and "is_file (files s) p"
  shows "get_config_result w s = load_and_cache p s"
proof (cases "env_config_path w")
  case None
  then show ?thesis using assms
    by (simp add: get_config_result_def missing_override_def discover_and_load_def)
next
  case (Some q)
  then have "q = p" using assms(2) by (simp add: discover_config_path_def)
  then show ?thesis using Some assms
    by (simp add: get_config_result_def missing_override_def discover_and_load_def)
qed

text \<open>
  What holds of C1: a \<^verbatim>\<open>ConfigError\<close> of \<^verbatim>\<open>load_config\<close> (an unsupported extension,
  a JSON root that is no object, a section or an option that is refused) is caught, and
  the all-default config is returned and cached with the message as its one error.
\<close>

lemma config_error_is_caught:
  assumes "cached s = None" and "discover_config_path w (files s) = Some p" and "is_file (files s) p"
    and "load_config (files s) p = Inl (ConfigError msg q)"
  shows "\<exists>r. get_config_result w s = (Inr r, s\<lparr>cached := Some r\<rparr>) \<and> config r = MeditConfig_init
           \<and> error (diagnostics r) = Some msg \<and> warnings (diagnostics r) = []"
  using assms(4) unfolding get_config_result_loads[OF assms(1-3)]
  by (simp add: load_and_cache_def default_result_def Let_def)

text \<open>
  C1 fails for text that is not JSON.  When the discovered file has a \<^verbatim>\<open>.json\<close>
  suffix and \<^verbatim>\<open>json.load\<close> raises on its text, \<^verbatim>\<open>get_config_result\<close> raises that
  exception, a \<^verbatim>\<open>ValueError\<close> that is no \<^verbatim>\<open>ConfigError\<close>: no result is returned and
  nothing is cached.
\<close>

theorem invalid_json_propagates:
  assumes "cached s = None"
    and "discover_config_path w (files s) = Some p"
    and "py_lower (path_suffix p) = ''.json''"
    and "files s p = Some text"
    and "json_loads text = Inl e"
  shows "get_config_result w s = (Inl e, s) \<and> is_ValueError e \<and> \<not> is_ConfigError e"
proof -
  have e: "e = JSONDecodeError ''Invalid JSON''" using assms(5) by (rule json_loads_error)
  have "is_file (files s) p" using assms(4) by (simp add: is_file_def)
  then have "get_config_result w s = load_and_cache p s"
    using assms(1,2) by (rule get_config_result_loads[rotated 2])
  moreover have "load_config (files s) p = Inl e"
    using assms(3,4,5) by (simp add: load_config_def load_raw_config_def load_json_def)
  ultimately show ?thesis using e by (simp add: load_and_cache_def)
qed

theorem invalid_json_propagates_witness:
  "get_config_result example_env (example_state [(''/work/medit.json'', ''{'')])
     = (Inl (JSONDecodeError ''Invalid JSON''), example_state [(''/work/medit.json'', ''{'')])"
proof -
  have h1: "cached (example_state [(''/work/medit.json'', ''{'')]) = None"
    by (simp add: example_state_def)
  have h4: "files (example_state [(''/work/medit.json'', ''{'')]) ''/work/medit.json'' = Some ''{''"
    by (simp add: example_state_def)
  have h5: "json_loads ''{'' = Inl (JSONDecodeError ''Invalid JSON'')"
    by (simp add: json_loads_def scan_token_def is_ws_def cons_token_def)
  show ?thesis
    using invalid_json_propagates[OF h1 example_discover medit_json_suffix h4 h5] by simp
qed

subsection \<open>C3: validators in order, value errors wrapped\<close>











subsection \<open>C4: unknown keys\<close>







end
